theory Spec2Isabelle
  imports Complex_Main
begin

section \<open>JavaScript numbers\<close>

text \<open>
  The module \<^verbatim>\<open>app/util/custom-gas.js\<close> computes with JavaScript numbers, which are
  IEEE 754 binary64 values.  A finite number is modelled by the rational it denotes, and
  every arithmetic operation that the language rounds is rounded here as well
  (\<open>fl\<close>: to the nearest binary64 value, ties to the even significand, overflow to an
  infinity).  The two zeros are identified: no operation of the module tells them apart
  (it divides by nonzero literals only, and both zeros print as \<^verbatim>\<open>0\<close>).
\<close>

datatype number = NaN | PInfinity | NInfinity | Fin rat

definition pow_int :: "int \<Rightarrow> int \<Rightarrow> rat" where
  "pow_int b k = (if 0 \<le> k then of_int b ^ nat k else 1 / of_int b ^ nat (- k))"

text \<open>The number of digits of \<open>0 < p\<close> in base \<open>b\<close>.\<close>

function digit_count :: "int \<Rightarrow> int \<Rightarrow> nat" where
  "digit_count b p = (if p \<le> 0 \<or> b < 2 then 0 else Suc (digit_count b (p div b)))"
  by pat_completeness auto
termination
proof (relation "measure (\<lambda>(b, p). nat p)")
  show "wf (measure (\<lambda>(b, p). nat p))"
    by simp
next
  fix b p :: int
  assume "\<not> (p \<le> 0 \<or> b < 2)"
  then have "0 < p" and "1 < b"
    by simp_all
  then have "p div b < p"
    by (rule int_div_less_self)
  moreover have "0 \<le> p div b"
    using \<open>0 < p\<close> \<open>1 < b\<close> by (simp add: pos_imp_zdiv_nonneg_iff)
  ultimately show "((b, p div b), (b, p)) \<in> measure (\<lambda>(b, p). nat p)"
    by simp
qed

declare digit_count.simps [simp del]

text \<open>For \<open>0 < x\<close>, \<open>floor_log b x\<close> is the integer \<open>e\<close> with \<open>b ^ e \<le> x < b ^ (e + 1)\<close>.\<close>

definition floor_log :: "int \<Rightarrow> rat \<Rightarrow> int" where
  "floor_log b x =
     (let (p, q) = quotient_of x;
          e0 = int (digit_count b p) - int (digit_count b q)
      in if pow_int b e0 \<le> x then e0 else e0 - 1)"

definition round_half_even :: "rat \<Rightarrow> int" where
  "round_half_even x =
     (let f = \<lfloor>x\<rfloor>; d = x - of_int f
      in if d < 1 / 2 then f
         else if 1 / 2 < d then f + 1
         else if even f then f else f + 1)"

text \<open>
  Rounding of an exact result to binary64: 53 significant bits, the least exponent of a
  normal number is \<open>- 1022\<close> (below it the spacing stays \<open>2 ^ - 1074\<close>), and a rounded
  magnitude of \<open>2 ^ 1024\<close> or more is an infinity.  The bound \<open>2 ^ 1024\<close> is written out
  (lemma \<open>binary64_overflow_eq\<close> below).
\<close>

definition binary64_overflow :: rat where
  "binary64_overflow =
     179769313486231590772930519078902473361797697894230657273430081157732675805500963132708477322407536021120113879871393357658789768814416622492847430639474124377767893424865485276302219601246094119453082952085005768838150682342462881473913110540827237163350510684586298239947245938479716304835356329624224137216"

definition fl :: "rat \<Rightarrow> number" where
  "fl x =
     (if x = 0 then Fin 0
      else
        let e = max (floor_log 2 \<bar>x\<bar>) (- 1022);
            u = pow_int 2 (e - 52);
            r = of_int (round_half_even (x / u)) * u
        in if binary64_overflow \<le> \<bar>r\<bar> then (if x < 0 then NInfinity else PInfinity)
           else Fin r)"

fun is_negative :: "number \<Rightarrow> bool" where
  "is_negative (Fin x) = (x < 0)"
| "is_negative NInfinity = True"
| "is_negative _ = False"

definition infinity_of :: "bool \<Rightarrow> number" where
  "infinity_of neg = (if neg then NInfinity else PInfinity)"

text \<open>The operator \<^verbatim>\<open>*\<close>.\<close>

fun js_mul :: "number \<Rightarrow> number \<Rightarrow> number" where
  "js_mul NaN _ = NaN"
| "js_mul _ NaN = NaN"
| "js_mul (Fin x) (Fin y) = fl (x * y)"
| "js_mul (Fin x) i = (if x = 0 then NaN else infinity_of ((x < 0) \<noteq> is_negative i))"
| "js_mul i (Fin y) = (if y = 0 then NaN else infinity_of (is_negative i \<noteq> (y < 0)))"
| "js_mul i j = infinity_of (is_negative i \<noteq> is_negative j)"

text \<open>The operator \<^verbatim>\<open>/\<close>.  A zero divisor is the positive zero.\<close>

fun js_div :: "number \<Rightarrow> number \<Rightarrow> number" where
  "js_div NaN _ = NaN"
| "js_div _ NaN = NaN"
| "js_div (Fin x) (Fin y) =
     (if y = 0 then (if x = 0 then NaN else infinity_of (x < 0)) else fl (x / y))"
| "js_div (Fin x) i = Fin 0"
| "js_div i (Fin y) = infinity_of (is_negative i \<noteq> (y < 0))"
| "js_div i j = NaN"

text \<open>
  The operator \<^verbatim>\<open>%\<close>: the remainder of the division truncated towards zero, with the
  sign of the dividend.  It is exact on binary64 values, so nothing is rounded.
\<close>

definition truncate :: "rat \<Rightarrow> int" where
  "truncate q = (if 0 \<le> q then \<lfloor>q\<rfloor> else \<lceil>q\<rceil>)"

fun js_rem :: "number \<Rightarrow> number \<Rightarrow> number" where
  "js_rem (Fin x) (Fin y) = (if y = 0 then NaN else Fin (x - y * of_int (truncate (x / y))))"
| "js_rem (Fin x) PInfinity = Fin x"
| "js_rem (Fin x) NInfinity = Fin x"
| "js_rem _ _ = NaN"

fun Math_floor :: "number \<Rightarrow> number" where
  "Math_floor (Fin x) = Fin (of_int \<lfloor>x\<rfloor>)"
| "Math_floor n = n"

fun Math_ceil :: "number \<Rightarrow> number" where
  "Math_ceil (Fin x) = Fin (of_int \<lceil>x\<rceil>)"
| "Math_ceil n = n"

text \<open>\<^verbatim>\<open>Math.round\<close>: the nearest integer, a tie going up.\<close>

fun Math_round :: "number \<Rightarrow> number" where
  "Math_round (Fin x) = Fin (of_int \<lfloor>x + 1 / 2\<rfloor>)"
| "Math_round n = n"

text \<open>A number in a condition: zero and \<^verbatim>\<open>NaN\<close> are false.\<close>

fun truthy :: "number \<Rightarrow> bool" where
  "truthy (Fin x) = (x \<noteq> 0)"
| "truthy NaN = False"
| "truthy _ = True"

text \<open>The comparisons \<^verbatim>\<open>>\<close> and \<^verbatim>\<open>>=\<close>: false whenever an operand is \<^verbatim>\<open>NaN\<close>.\<close>

fun js_gt :: "number \<Rightarrow> number \<Rightarrow> bool" where
  "js_gt NaN _ = False"
| "js_gt _ NaN = False"
| "js_gt (Fin x) (Fin y) = (y < x)"
| "js_gt PInfinity b = (b \<noteq> PInfinity)"
| "js_gt NInfinity _ = False"
| "js_gt (Fin x) b = (b = NInfinity)"

fun js_ge :: "number \<Rightarrow> number \<Rightarrow> bool" where
  "js_ge NaN _ = False"
| "js_ge _ NaN = False"
| "js_ge a b = (a = b \<or> js_gt a b)"

section \<open>Numbers as strings\<close>

definition digit_char :: "int \<Rightarrow> char" where
  "digit_char d = ''0123456789'' ! nat d"

function dec :: "int \<Rightarrow> string" where
  "dec n = (if n < 10 then [digit_char n] else dec (n div 10) @ [digit_char (n mod 10)])"
  by pat_completeness auto
termination
  by (relation "measure nat") auto

declare dec.simps [simp del]

text \<open>
  \<^verbatim>\<open>Number::toString\<close> of ECMAScript, radix 10.  For a finite \<open>0 < v\<close> it takes the least
  \<open>k\<close> for which some decimal \<open>s * 10 ^ (n - k)\<close> with \<open>10 ^ (k - 1) \<le> s < 10 ^ k\<close> rounds
  to \<open>v\<close>, and among those the \<open>s\<close> nearest to \<open>v\<close>.  Only the two \<open>k\<close>-digit decimals
  around \<open>v\<close> can be that one; a binary64 value always has one with 17 digits.
\<close>

definition decimal_candidates :: "rat \<Rightarrow> nat \<Rightarrow> (int \<times> int) list" where
  "decimal_candidates v k =
     (let p = floor_log 10 v;
          u = pow_int 10 (p + 1 - int k);
          s = \<lfloor>v / u\<rfloor>;
          below = (s, p + 1);
          above = (if s + 1 = 10 ^ k then (10 ^ (k - 1), p + 2) else (s + 1, p + 1))
      in filter (\<lambda>(s, n). fl (of_int s * pow_int 10 (n - int k)) = Fin v) [below, above])"

definition nearest_candidate :: "rat \<Rightarrow> nat \<Rightarrow> (int \<times> int) list \<Rightarrow> int \<times> int" where
  "nearest_candidate v k cs =
     (case cs of
        [c] \<Rightarrow> c
      | [(s1, n1), (s2, n2)] \<Rightarrow>
          (let d1 = \<bar>of_int s1 * pow_int 10 (n1 - int k) - v\<bar>;
               d2 = \<bar>of_int s2 * pow_int 10 (n2 - int k) - v\<bar>
           in if d1 < d2 then (s1, n1)
              else if d2 < d1 then (s2, n2)
              else if even s1 then (s1, n1) else (s2, n2))
      | _ \<Rightarrow> (\<lfloor>v / pow_int 10 (floor_log 10 v + 1 - int k)\<rfloor>, floor_log 10 v + 1))"

definition shortest_decimal :: "rat \<Rightarrow> nat \<times> int \<times> int" where
  "shortest_decimal v =
     (case List.find (\<lambda>k. decimal_candidates v k \<noteq> []) [1..<18] of
        Some k \<Rightarrow> (k, nearest_candidate v k (decimal_candidates v k))
      | None \<Rightarrow> (17, nearest_candidate v 17 []))"

definition exponent_part :: "int \<Rightarrow> string" where
  "exponent_part n =
     CHR ''e'' # (if 0 \<le> n - 1 then CHR ''+'' else CHR ''-'') # dec \<bar>n - 1\<bar>"

definition positive_toString :: "rat \<Rightarrow> string" where
  "positive_toString v =
     (let (k, s, n) = shortest_decimal v;
          ds = dec s
      in if int k \<le> n \<and> n \<le> 21 then ds @ replicate (nat (n - int k)) CHR ''0''
         else if 0 < n \<and> n \<le> 21 then take (nat n) ds @ CHR ''.'' # drop (nat n) ds
         else if - 6 < n \<and> n \<le> 0 then ''0.'' @ replicate (nat (- n)) CHR ''0'' @ ds
         else if k = 1 then ds @ exponent_part n
         else take 1 ds @ CHR ''.'' # drop 1 ds @ exponent_part n)"

fun Number_toString :: "number \<Rightarrow> string" where
  "Number_toString NaN = ''NaN''"
| "Number_toString PInfinity = ''Infinity''"
| "Number_toString NInfinity = ''-Infinity''"
| "Number_toString (Fin x) =
     (if x = 0 then ''0''
      else if x < 0 then CHR ''-'' # positive_toString (- x)
      else positive_toString x)"

section \<open>The wait-time formatter\<close>

text \<open>
  \<^verbatim>\<open>parseWaitTime(min, strHour, strMin, strSec)\<close>, lines 70 to 115.  The local variables
  of the source are the bound variables of the same names (\<open>mn\<close> is the source's
  \<^verbatim>\<open>min\<close>); the four flags start out undefined, which a condition reads as false.
\<close>

definition append_segment :: "string \<Rightarrow> string \<Rightarrow> string" where
  "append_segment parsed seg = (if parsed \<noteq> [] then parsed @ '' '' else parsed) @ seg"

definition parseWaitTime :: "number \<Rightarrow> string \<Rightarrow> string \<Rightarrow> string \<Rightarrow> string" where
  "parseWaitTime mn strHour strMin strSec =
     (let parsed = [];
          weeks = Math_floor (js_div mn (Fin 10080));
          (parsed, weekRendered) =
            (if truthy weeks then (parsed @ Number_toString weeks @ ''week'', True)
             else (parsed, False));
          tempMin = js_rem mn (Fin 10080);
          days = Math_floor (js_div tempMin (Fin 1440));
          (parsed, dayRendered, mn) =
            (if truthy days
             then (append_segment parsed (Number_toString days @ ''day''), True, tempMin)
             else (parsed, False, mn));
          tempMin = js_rem mn (Fin 1440);
          hours = Math_floor (js_div tempMin (Fin 60));
          (parsed, hourRendered, mn) =
            (if \<not> weekRendered \<and> truthy hours
             then (append_segment parsed (Number_toString hours @ strHour), True, tempMin)
             else (parsed, False, mn));
          tempMin = js_rem mn (Fin 60);
          minutes = Math_floor tempMin;
          (parsed, minRendered, mn) =
            (if \<not> weekRendered \<and> \<not> dayRendered \<and> js_ge minutes (Fin 1)
             then (append_segment parsed (Number_toString minutes @ strMin), True, tempMin)
             else (parsed, False, mn));
          mn = js_rem mn (Fin 1);
          seconds = js_div (js_mul (Math_round (js_mul mn (Fin 100))) (Fin 3)) (Fin 5);
          parsed =
            (if \<not> weekRendered \<and> \<not> dayRendered \<and> \<not> hourRendered \<and> \<not> minRendered
                \<and> js_gt seconds (Fin 1)
             then append_segment parsed (Number_toString (Math_ceil seconds) @ strSec)
             else parsed)
      in parsed)"

section \<open>Strings as numbers\<close>

text \<open>
  A string is the list of its code units; the code units of this model are below 256.
  The white space of \<^verbatim>\<open>parseInt\<close> and of the conversion of a string to a number is then
  TAB, LF, VT, FF, CR, the space and the no-break space.
\<close>

definition is_white :: "char \<Rightarrow> bool" where
  "is_white c = ((of_char c :: nat) \<in> set [9, 10, 11, 12, 13, 32, 160])"

definition is_digit :: "char \<Rightarrow> bool" where
  "is_digit c = (c \<in> set ''0123456789'')"

definition digit_value :: "char \<Rightarrow> int" where
  "digit_value c = of_char c - 48"

definition digits_value :: "string \<Rightarrow> int" where
  "digits_value ds = foldl (\<lambda>a c. 10 * a + digit_value c) 0 ds"

text \<open>
  \<^verbatim>\<open>parseInt(val, 10)\<close>: leading white space is skipped, one sign is read, and the longest
  prefix of decimal digits that follows is the integer; without such a digit the result
  is \<^verbatim>\<open>NaN\<close>.
\<close>

definition strip_sign :: "string \<Rightarrow> string" where
  "strip_sign s =
     (case s of [] \<Rightarrow> s | c # r \<Rightarrow> if c = CHR ''+'' \<or> c = CHR ''-'' then r else s)"

definition sign_of :: "string \<Rightarrow> int" where
  "sign_of s = (case s of [] \<Rightarrow> 1 | c # r \<Rightarrow> if c = CHR ''-'' then - 1 else 1)"

definition integer_prefix :: "string \<Rightarrow> string" where
  "integer_prefix val = takeWhile is_digit (strip_sign (dropWhile is_white val))"

definition parseInt :: "string \<Rightarrow> number" where
  "parseInt val =
     (let z = integer_prefix val
      in if z = [] then NaN
         else fl (of_int (sign_of (dropWhile is_white val) * digits_value z)))"









section \<open>Values\<close>

text \<open>
  The values the functions receive are plain data: the primitive values, arrays and
  objects that carry no method of their own (the values of JSON, and \<^verbatim>\<open>undefined\<close>).
  An object is the list of its own properties, looked up by \<open>map_of\<close>.
\<close>

datatype js_value =
    Undefined
  | Null
  | Boolean bool
  | Number number
  | String string
  | Array "js_value list"
  | Object "(string \<times> js_value) list"





section \<open>Big integers\<close>

datatype js_error = InvalidInput | TypeError | NetworkError | ParseError



section \<open>The gas fee\<close>


text \<open>\<^verbatim>\<open>convertApiValueToGWEI(val)\<close>, lines 21 to 23.\<close>

definition convertApiValueToGWEI :: "string \<Rightarrow> string" where
  "convertApiValueToGWEI val = Number_toString (js_div (parseInt val) (Fin 10))"




section \<open>The remote estimates\<close>

text \<open>
  \<^verbatim>\<open>fetchBasicGasEstimates()\<close>, lines 122 to 163.  The parameter \<open>response\<close> is the outcome
  of the request of lines 123 to 131: the value that \<^verbatim>\<open>r.json()\<close> resolves to, or the
  error of a failed request or parse.  The callback of lines 133 to 161 takes the
  properties of that value apart, which throws a \<^verbatim>\<open>TypeError\<close> on \<^verbatim>\<open>null\<close> (and on
  \<^verbatim>\<open>undefined\<close>), builds the record and logs it.  The console is the list of the lines
  logged so far.
\<close>

text \<open>
  Reading a property, for the eleven names the callback reads: none of them is a
  property of a boolean, a number, a string or an array.
\<close>

fun property :: "js_value \<Rightarrow> string \<Rightarrow> js_value" where
  "property (Object kvs) name = (case map_of kvs name of None \<Rightarrow> Undefined | Some v \<Rightarrow> v)"
| "property v name = Undefined"

definition fetchBasicGasEstimates ::
  "js_error + js_value \<Rightarrow> (string \<times> js_value) list \<Rightarrow>
     (js_error + js_value) \<times> (string \<times> js_value) list" where
  "fetchBasicGasEstimates response console =
     (case response of
        Inl err \<Rightarrow> (Inl err, console)
      | Inr r \<Rightarrow>
          if r = Null \<or> r = Undefined then (Inl TypeError, console)
          else
            let average = property r ''average'';
                avgWait = property r ''avgWait'';
                blockTime = property r ''block_time'';
                blockNum = property r ''blockNum'';
                fast = property r ''fast'';
                fastest = property r ''fastest'';
                fastestWait = property r ''fastestWait'';
                fastWait = property r ''fastWait'';
                safeLow = property r ''safeLow'';
                safeLowWait = property r ''safeLowWait'';
                speed = property r ''speed'';
                basicEstimates =
                  Object
                    [(''average'', average),
                     (''averageWait'', avgWait),
                     (''blockTime'', blockTime),
                     (''blockNum'', blockNum),
                     (''fast'', fast),
                     (''fastest'', fastest),
                     (''fastestWait'', fastestWait),
                     (''fastWait'', fastWait),
                     (''safeLow'', safeLow),
                     (''safeLowWait'', safeLowWait),
                     (''speed'', speed)]
            in (Inr basicEstimates, console @ [(''basicEstimates'', basicEstimates)]))"

section \<open>Powers, digit counts and rounding\<close>




lemma pow_int_of_nat: "pow_int b (int n) = of_int b ^ n"
  by (simp add: pow_int_def)












lemma round_half_even_of_int [simp]: "round_half_even (of_int n) = n"
  by (simp add: round_half_even_def)








section \<open>Rounding: error and exactness\<close>













section \<open>Decimal digits\<close>







section \<open>The string of an integer-valued number\<close>








section \<open>Properties of the wait-time formatter\<close>

lemma dec_nonempty: "dec n \<noteq> []"
  by (subst dec.simps) simp

lemma positive_toString_nonempty: "positive_toString v \<noteq> []"
  by (simp add: positive_toString_def Let_def dec_nonempty split: prod.split)

lemma Number_toString_nonempty: "Number_toString n \<noteq> []"
  by (cases n) (simp_all add: positive_toString_nonempty)

lemma js_gt_zero_truthy: "js_gt n (Fin 0) \<Longrightarrow> truthy n"
  by (cases n) auto

lemma parseWaitTime_week_branch:
  "js_gt (Math_floor (js_div mn (Fin 10080))) (Fin 0) \<Longrightarrow>
   parseWaitTime mn strHour strMin strSec =
     Number_toString (Math_floor (js_div mn (Fin 10080))) @ ''week'' @
     (let days = Math_floor (js_div (js_rem mn (Fin 10080)) (Fin 1440))
      in if truthy days then '' '' @ Number_toString days @ ''day'' else [])"
  by (simp add: parseWaitTime_def Let_def append_segment_def js_gt_zero_truthy)

lemma parseWaitTime_day_branch:
  "\<not> truthy (Math_floor (js_div mn (Fin 10080))) \<Longrightarrow>
   js_gt (Math_floor (js_div (js_rem mn (Fin 10080)) (Fin 1440))) (Fin 0) \<Longrightarrow>
   parseWaitTime mn strHour strMin strSec =
     Number_toString (Math_floor (js_div (js_rem mn (Fin 10080)) (Fin 1440))) @ ''day'' @
     (let hours = Math_floor (js_div (js_rem (js_rem mn (Fin 10080)) (Fin 1440)) (Fin 60))
      in if truthy hours then '' '' @ Number_toString hours @ strHour else [])"
  by (simp add: parseWaitTime_def Let_def append_segment_def js_gt_zero_truthy)

lemma parseWaitTime_hour_branch:
  "\<not> truthy (Math_floor (js_div mn (Fin 10080))) \<Longrightarrow>
   \<not> truthy (Math_floor (js_div (js_rem mn (Fin 10080)) (Fin 1440))) \<Longrightarrow>
   js_gt (Math_floor (js_div (js_rem mn (Fin 1440)) (Fin 60))) (Fin 0) \<Longrightarrow>
   parseWaitTime mn strHour strMin strSec =
     Number_toString (Math_floor (js_div (js_rem mn (Fin 1440)) (Fin 60))) @ strHour @
     (let minutes = Math_floor (js_rem (js_rem mn (Fin 1440)) (Fin 60))
      in if js_ge minutes (Fin 1) then '' '' @ Number_toString minutes @ strMin else [])"
  by (simp add: parseWaitTime_def Let_def append_segment_def js_gt_zero_truthy
      Number_toString_nonempty)


section \<open>The claims\<close>




text \<open>
  C2.  When no week and no day is rendered and the hours \<open>floor ((min % 1440) / 60)\<close> are
  positive, the claim has the hours rendered alone, so that \<^verbatim>\<open>parseWaitTime(90, "h", "m",
  "s")\<close> would be \<^verbatim>\<open>1h\<close>.  The minutes are guarded by the week and day flags only (line
  100), so the formatter returns \<^verbatim>\<open>1h 30m\<close>.
\<close>

theorem parseWaitTime_90_counterexample:
  "parseWaitTime (Fin 90) ''h'' ''m'' ''s'' = ''1h 30m'' \<and>
   parseWaitTime (Fin 90) ''h'' ''m'' ''s'' \<noteq> ''1h''"
  by code_simp

text \<open>
  C2, as amended.  When no week and no day is rendered and the hours
  \<open>floor ((min % 1440) / 60)\<close> are positive, the result is the hours segment, followed by
  the minutes segment \<open>floor ((min % 1440) % 60)\<close> whenever that is at least 1; the seconds
  are suppressed.  In particular \<^verbatim>\<open>parseWaitTime(90, "h", "m", "s")\<close> is \<^verbatim>\<open>1h 30m\<close>.
\<close>

theorem parseWaitTime_hours:
  "(\<forall>mn strHour strMin strSec.
      \<not> truthy (Math_floor (js_div mn (Fin 10080))) \<longrightarrow>
      \<not> truthy (Math_floor (js_div (js_rem mn (Fin 10080)) (Fin 1440))) \<longrightarrow>
      js_gt (Math_floor (js_div (js_rem mn (Fin 1440)) (Fin 60))) (Fin 0) \<longrightarrow>
      parseWaitTime mn strHour strMin strSec =
        Number_toString (Math_floor (js_div (js_rem mn (Fin 1440)) (Fin 60))) @ strHour @
        (let minutes = Math_floor (js_rem (js_rem mn (Fin 1440)) (Fin 60))
         in if js_ge minutes (Fin 1) then '' '' @ Number_toString minutes @ strMin else []))
   \<and> parseWaitTime (Fin 90) ''h'' ''m'' ''s'' = ''1h 30m''"
proof (intro conjI allI impI)
  show "parseWaitTime (Fin 90) ''h'' ''m'' ''s'' = ''1h 30m''"
    by code_simp
qed (rule parseWaitTime_hour_branch)

theorem parseWaitTime_hours_witness:
  "\<not> truthy (Math_floor (js_div (Fin 120) (Fin 10080))) \<and>
   \<not> truthy (Math_floor (js_div (js_rem (Fin 120) (Fin 10080)) (Fin 1440))) \<and>
   js_gt (Math_floor (js_div (js_rem (Fin 120) (Fin 1440)) (Fin 60))) (Fin 0) \<and>
   parseWaitTime (Fin 120) ''h'' ''m'' ''s'' = ''2h''"
proof -
  have h1: "\<not> truthy (Math_floor (js_div (Fin 120) (Fin 10080)))"
    by code_simp
  have h2: "\<not> truthy (Math_floor (js_div (js_rem (Fin 120) (Fin 10080)) (Fin 1440)))"
    by code_simp
  have h3: "js_gt (Math_floor (js_div (js_rem (Fin 120) (Fin 1440)) (Fin 60))) (Fin 0)"
    by code_simp
  have "parseWaitTime (Fin 120) ''h'' ''m'' ''s'' =
      Number_toString (Math_floor (js_div (js_rem (Fin 120) (Fin 1440)) (Fin 60))) @ ''h'' @
      (let minutes = Math_floor (js_rem (js_rem (Fin 120) (Fin 1440)) (Fin 60))
       in if js_ge minutes (Fin 1) then '' '' @ Number_toString minutes @ ''m'' else [])"
    using parseWaitTime_hours h1 h2 h3 by blast
  also have "\<dots> = ''2h''"
    by code_simp
  finally show ?thesis
    using h1 h2 h3 by blast
qed

text \<open>
  C3.  When no week is rendered and the days \<open>floor ((min % 10080) / 1440)\<close> are positive,
  the claim has the days rendered alone, so that \<^verbatim>\<open>parseWaitTime(1500, "h", "m", "s")\<close>
  would be \<^verbatim>\<open>1day\<close>.  The hours are guarded by the week flag only (line 91), so the
  formatter returns \<^verbatim>\<open>1day 1h\<close>.
\<close>

theorem parseWaitTime_1500_counterexample:
  "parseWaitTime (Fin 1500) ''h'' ''m'' ''s'' = ''1day 1h'' \<and>
   parseWaitTime (Fin 1500) ''h'' ''m'' ''s'' \<noteq> ''1day''"
  by code_simp

text \<open>
  C3, as amended.  When no week is rendered and the days \<open>floor ((min % 10080) / 1440)\<close>
  are positive, the result is the days segment with the fixed label \<^verbatim>\<open>day\<close>, followed by
  the hours segment whenever the hours of the remainder are not zero; minutes and seconds
  are suppressed.  In particular \<^verbatim>\<open>parseWaitTime(1500, "h", "m", "s")\<close> is \<^verbatim>\<open>1day 1h\<close>.
\<close>

theorem parseWaitTime_days:
  "(\<forall>mn strHour strMin strSec.
      \<not> truthy (Math_floor (js_div mn (Fin 10080))) \<longrightarrow>
      js_gt (Math_floor (js_div (js_rem mn (Fin 10080)) (Fin 1440))) (Fin 0) \<longrightarrow>
      parseWaitTime mn strHour strMin strSec =
        Number_toString (Math_floor (js_div (js_rem mn (Fin 10080)) (Fin 1440))) @ ''day'' @
        (let hours = Math_floor (js_div (js_rem (js_rem mn (Fin 10080)) (Fin 1440)) (Fin 60))
         in if truthy hours then '' '' @ Number_toString hours @ strHour else []))
   \<and> parseWaitTime (Fin 1500) ''h'' ''m'' ''s'' = ''1day 1h''"
proof (intro conjI allI impI)
  show "parseWaitTime (Fin 1500) ''h'' ''m'' ''s'' = ''1day 1h''"
    by code_simp
qed (rule parseWaitTime_day_branch)

theorem parseWaitTime_days_witness:
  "\<not> truthy (Math_floor (js_div (Fin 2890) (Fin 10080))) \<and>
   js_gt (Math_floor (js_div (js_rem (Fin 2890) (Fin 10080)) (Fin 1440))) (Fin 0) \<and>
   parseWaitTime (Fin 2890) ''h'' ''m'' ''s'' = ''2day''"
proof -
  have h1: "\<not> truthy (Math_floor (js_div (Fin 2890) (Fin 10080)))"
    by code_simp
  have h2: "js_gt (Math_floor (js_div (js_rem (Fin 2890) (Fin 10080)) (Fin 1440))) (Fin 0)"
    by code_simp
  have "parseWaitTime (Fin 2890) ''h'' ''m'' ''s'' =
      Number_toString (Math_floor (js_div (js_rem (Fin 2890) (Fin 10080)) (Fin 1440))) @ ''day'' @
      (let hours = Math_floor (js_div (js_rem (js_rem (Fin 2890) (Fin 10080)) (Fin 1440)) (Fin 60))
       in if truthy hours then '' '' @ Number_toString hours @ ''h'' else [])"
    using parseWaitTime_days h1 h2 by blast
  also have "\<dots> = ''2day''"
    by code_simp
  finally show ?thesis
    using h1 h2 by blast
qed

text \<open>
  C4.  When the weeks \<open>floor (min / 10080)\<close> are positive, the result is the weeks segment
  with the fixed label \<^verbatim>\<open>week\<close>, followed by the days segment whenever the days of the
  remainder are not zero, and nothing else: hours, minutes and seconds are suppressed.
  In particular \<^verbatim>\<open>parseWaitTime(10081, "h", "m", "s")\<close> is \<^verbatim>\<open>1week\<close>.
\<close>

theorem parseWaitTime_weeks:
  "(\<forall>mn strHour strMin strSec.
      js_gt (Math_floor (js_div mn (Fin 10080))) (Fin 0) \<longrightarrow>
      parseWaitTime mn strHour strMin strSec =
        Number_toString (Math_floor (js_div mn (Fin 10080))) @ ''week'' @
        (let days = Math_floor (js_div (js_rem mn (Fin 10080)) (Fin 1440))
         in if truthy days then '' '' @ Number_toString days @ ''day'' else []))
   \<and> parseWaitTime (Fin 10081) ''h'' ''m'' ''s'' = ''1week''"
proof (intro conjI allI impI)
  show "parseWaitTime (Fin 10081) ''h'' ''m'' ''s'' = ''1week''"
    by code_simp
qed (rule parseWaitTime_week_branch)

theorem parseWaitTime_weeks_witness:
  "js_gt (Math_floor (js_div (Fin 11581) (Fin 10080))) (Fin 0) \<and>
   parseWaitTime (Fin 11581) ''h'' ''m'' ''s'' = ''1week 1day''"
proof -
  have h1: "js_gt (Math_floor (js_div (Fin 11581) (Fin 10080))) (Fin 0)"
    by code_simp
  have "parseWaitTime (Fin 11581) ''h'' ''m'' ''s'' =
      Number_toString (Math_floor (js_div (Fin 11581) (Fin 10080))) @ ''week'' @
      (let days = Math_floor (js_div (js_rem (Fin 11581) (Fin 10080)) (Fin 1440))
       in if truthy days then '' '' @ Number_toString days @ ''day'' else [])"
    using parseWaitTime_weeks h1 by blast
  also have "\<dots> = ''1week 1day''"
    by code_simp
  finally show ?thesis
    using h1 by blast
qed





text \<open>
  C7.  The claim has the renamed record returned for every parsed response body.  The
  callback takes the properties of its argument apart in its parameter list (lines 133
  to 145), which throws a \<^verbatim>\<open>TypeError\<close> when the body is the JSON value \<^verbatim>\<open>null\<close>: the
  promise is rejected and no record is returned.
\<close>

theorem fetchBasicGasEstimates_null_counterexample:
  "fetchBasicGasEstimates (Inr Null) [] = (Inl TypeError, [])"
  by (simp add: fetchBasicGasEstimates_def)

text \<open>
  C7, as amended.  For every parsed response body other than \<^verbatim>\<open>null\<close> the function
  returns a record in which \<^verbatim>\<open>averageWait\<close> is the body's \<^verbatim>\<open>avgWait\<close> and \<^verbatim>\<open>blockTime\<close>
  is the body's \<^verbatim>\<open>block_time\<close>, while \<^verbatim>\<open>average\<close>, \<^verbatim>\<open>blockNum\<close>, \<^verbatim>\<open>fast\<close>, \<^verbatim>\<open>fastest\<close>,
  \<^verbatim>\<open>fastestWait\<close>, \<^verbatim>\<open>fastWait\<close>, \<^verbatim>\<open>safeLow\<close>, \<^verbatim>\<open>safeLowWait\<close> and \<^verbatim>\<open>speed\<close> carry the body's
  values of the same names.
\<close>

theorem fetchBasicGasEstimates_renames:
  "r \<noteq> Null \<longrightarrow> r \<noteq> Undefined \<longrightarrow>
   (\<exists>fields. fst (fetchBasicGasEstimates (Inr r) console) = Inr (Object fields) \<and>
      map_of fields ''averageWait'' = Some (property r ''avgWait'') \<and>
      map_of fields ''blockTime'' = Some (property r ''block_time'') \<and>
      (\<forall>name \<in> set [''average'', ''blockNum'', ''fast'', ''fastest'', ''fastestWait'',
          ''fastWait'', ''safeLow'', ''safeLowWait'', ''speed''].
         map_of fields name = Some (property r name)))"
proof (intro impI)
  assume r: "r \<noteq> Null" "r \<noteq> Undefined"
  define fields where
    "fields =
       [(''average'', property r ''average''), (''averageWait'', property r ''avgWait''),
        (''blockTime'', property r ''block_time''), (''blockNum'', property r ''blockNum''),
        (''fast'', property r ''fast''), (''fastest'', property r ''fastest''),
        (''fastestWait'', property r ''fastestWait''), (''fastWait'', property r ''fastWait''),
        (''safeLow'', property r ''safeLow''), (''safeLowWait'', property r ''safeLowWait''),
        (''speed'', property r ''speed'')]"
  have "fst (fetchBasicGasEstimates (Inr r) console) = Inr (Object fields)"
    using r by (simp add: fetchBasicGasEstimates_def Let_def fields_def)
  moreover have "map_of fields ''averageWait'' = Some (property r ''avgWait'')"
    and "map_of fields ''blockTime'' = Some (property r ''block_time'')"
    by (simp_all add: fields_def)
  moreover have "\<forall>name \<in> set [''average'', ''blockNum'', ''fast'', ''fastest'',
      ''fastestWait'', ''fastWait'', ''safeLow'', ''safeLowWait'', ''speed''].
    map_of fields name = Some (property r name)"
    by (simp add: fields_def)
  ultimately show "\<exists>fields. fst (fetchBasicGasEstimates (Inr r) console) = Inr (Object fields) \<and>
      map_of fields ''averageWait'' = Some (property r ''avgWait'') \<and>
      map_of fields ''blockTime'' = Some (property r ''block_time'') \<and>
      (\<forall>name \<in> set [''average'', ''blockNum'', ''fast'', ''fastest'', ''fastestWait'',
          ''fastWait'', ''safeLow'', ''safeLowWait'', ''speed''].
         map_of fields name = Some (property r name))"
    by blast
qed

theorem fetchBasicGasEstimates_renames_witness:
  "Object [(''average'', Number (Fin 50)), (''avgWait'', Number (Fin 1)),
      (''block_time'', Number (Fin 13))] \<noteq> Null \<and>
   Object [(''average'', Number (Fin 50)), (''avgWait'', Number (Fin 1)),
      (''block_time'', Number (Fin 13))] \<noteq> Undefined \<and>
   (\<exists>fields.
      fst (fetchBasicGasEstimates
        (Inr (Object [(''average'', Number (Fin 50)), (''avgWait'', Number (Fin 1)),
           (''block_time'', Number (Fin 13))])) []) = Inr (Object fields) \<and>
      map_of fields ''averageWait'' = Some (Number (Fin 1)) \<and>
      map_of fields ''blockTime'' = Some (Number (Fin 13)) \<and>
      map_of fields ''average'' = Some (Number (Fin 50)))"
proof -
  let ?r = "Object [(''average'', Number (Fin 50)), (''avgWait'', Number (Fin 1)),
      (''block_time'', Number (Fin 13))]"
  have h: "?r \<noteq> Null" "?r \<noteq> Undefined" by simp_all
  from fetchBasicGasEstimates_renames [of ?r "[]"] h
  obtain fields where f: "fst (fetchBasicGasEstimates (Inr ?r) []) = Inr (Object fields)"
    "map_of fields ''averageWait'' = Some (property ?r ''avgWait'')"
    "map_of fields ''blockTime'' = Some (property ?r ''block_time'')"
    "\<forall>name \<in> set [''average'', ''blockNum'', ''fast'', ''fastest'', ''fastestWait'',
          ''fastWait'', ''safeLow'', ''safeLowWait'', ''speed''].
       map_of fields name = Some (property ?r name)"
    by blast
  from f(4) have "map_of fields ''average'' = Some (property ?r ''average'')" by simp
  with f(1,2,3) h show ?thesis by simp
qed




text \<open>
  C9.  \<^verbatim>\<open>convertApiValueToGWEI\<close> has no failing branch: it maps every string to a string.
  For every string in which no decimal digit follows the leading white space and the
  optional sign, the result is the string \<^verbatim>\<open>NaN\<close>.
\<close>

theorem convertApiValueToGWEI_NaN:
  "integer_prefix val = [] \<longrightarrow> convertApiValueToGWEI val = ''NaN''"
proof
  assume "integer_prefix val = []"
  then have "parseInt val = NaN"
    by (simp add: parseInt_def)
  then have "js_div (parseInt val) (Fin 10) = NaN"
    by simp
  then show "convertApiValueToGWEI val = ''NaN''"
    by (simp add: convertApiValueToGWEI_def)
qed

theorem convertApiValueToGWEI_NaN_witness:
  "integer_prefix ''abc'' = [] \<and> convertApiValueToGWEI ''abc'' = ''NaN''"
proof -
  have h: "integer_prefix ''abc'' = []" by code_simp
  with convertApiValueToGWEI_NaN [of "''abc''"] show ?thesis by blast
qed

text \<open>
  C10.  For every response body that is a JSON object, \<^verbatim>\<open>fetchBasicGasEstimates\<close>
  resolves to a record of exactly the eleven keys \<^verbatim>\<open>average\<close>, \<^verbatim>\<open>averageWait\<close>,
  \<^verbatim>\<open>blockTime\<close>, \<^verbatim>\<open>blockNum\<close>, \<^verbatim>\<open>fast\<close>, \<^verbatim>\<open>fastest\<close>, \<^verbatim>\<open>fastestWait\<close>, \<^verbatim>\<open>fastWait\<close>,
  \<^verbatim>\<open>safeLow\<close>, \<^verbatim>\<open>safeLowWait\<close> and \<^verbatim>\<open>speed\<close>, and logs it: a field that the body lacks is
  \<^verbatim>\<open>undefined\<close> in the record, and a field of the body beyond the eleven that are read
  is not in the record.
\<close>

theorem fetchBasicGasEstimates_shape:
  "fetchBasicGasEstimates (Inr (Object kvs)) console =
     (let field = (\<lambda>name. case map_of kvs name of None \<Rightarrow> Undefined | Some v \<Rightarrow> v);
          basicEstimates =
            Object
              (zip
                [''average'', ''averageWait'', ''blockTime'', ''blockNum'', ''fast'',
                 ''fastest'', ''fastestWait'', ''fastWait'', ''safeLow'', ''safeLowWait'',
                 ''speed'']
                (map field
                  [''average'', ''avgWait'', ''block_time'', ''blockNum'', ''fast'',
                   ''fastest'', ''fastestWait'', ''fastWait'', ''safeLow'', ''safeLowWait'',
                   ''speed'']))
      in (Inr basicEstimates, console @ [(''basicEstimates'', basicEstimates)]))"
proof -
  have object: "Object kvs \<noteq> Null" "Object kvs \<noteq> Undefined"
    by simp_all
  have read: "property (Object kvs) name =
      (case map_of kvs name of None \<Rightarrow> Undefined | Some v \<Rightarrow> v)" for name
    by simp
  show ?thesis
    by (simp add: fetchBasicGasEstimates_def Let_def object read del: property.simps)
qed

theorem fetchBasicGasEstimates_shape_witness:
  "fst (fetchBasicGasEstimates
     (Inr (Object [(''fast'', Number (Fin 200)), (''gasPriceRange'', Null)])) []) =
   Inr (Object
     [(''average'', Undefined), (''averageWait'', Undefined), (''blockTime'', Undefined),
      (''blockNum'', Undefined), (''fast'', Number (Fin 200)), (''fastest'', Undefined),
      (''fastestWait'', Undefined), (''fastWait'', Undefined), (''safeLow'', Undefined),
      (''safeLowWait'', Undefined), (''speed'', Undefined)])"
  using fetchBasicGasEstimates_shape
    [of "[(''fast'', Number (Fin 200)), (''gasPriceRange'', Null)]" "[]"]
  by (simp add: Let_def)

end
